theory Spec2Isabelle
  imports Complex_Main "HOL-Library.Log_Nat"
begin

section \<open>JavaScript values handled by the call-timer service\<close>

text \<open>
  The service (\<^verbatim>\<open>src/index.js\<close>) reads the fields of JSON request bodies. A field
  is absent (\<^verbatim>\<open>undefined\<close>), \<^verbatim>\<open>null\<close>, a boolean, a number, a string, or an object
  or array. Objects and arrays are only ever tested for truthiness, for their type and,
  as \<^verbatim>\<open>Map\<close> keys, for reference identity, and converted to a string inside
  template literals, so they are represented by their reference and by whether that
  conversion returns: it raises a \<^verbatim>\<open>TypeError\<close> for an object such as
  \<^verbatim>\<open>{"toString": null}\<close>, whose own \<^verbatim>\<open>toString\<close> is not callable. A \<open>string\<close>
  is the list of the code units of the JavaScript string.
\<close>

datatype number = Finite rat | PosInfinity | NegInfinity | NaN

datatype jsval =
    JUndefined
  | JNull
  | JBool bool
  | JNum number
  | JStr string
  | JRef nat bool

text \<open>\<^verbatim>\<open>ToBoolean\<close>: what \<^verbatim>\<open>!x\<close> and \<^verbatim>\<open>x || y\<close> test.\<close>

fun truthy :: "jsval \<Rightarrow> bool" where
  "truthy JUndefined = False"
| "truthy JNull = False"
| "truthy (JBool b) = b"
| "truthy (JNum n) = (n \<noteq> Finite 0 \<and> n \<noteq> NaN)"
| "truthy (JStr s) = (s \<noteq> [])"
| "truthy (JRef r ok) = True"

text \<open>\<^verbatim>\<open>typeof x === 'string'\<close>\<close>

fun is_string :: "jsval \<Rightarrow> bool" where
  "is_string (JStr s) = True"
| "is_string _ = False"

text \<open>
  Whether \<^verbatim>\<open>`${x}`\<close> raises: the conversion to a string returns for every primitive
  value.
\<close>

fun toString_raises :: "jsval \<Rightarrow> bool" where
  "toString_raises (JRef r ok) = (\<not> ok)"
| "toString_raises _ = False"

section \<open>obfuscatePhone\<close>

text \<open>
  \<^verbatim>\<open>
  function obfuscatePhone(phoneNumber) {
    if (!phoneNumber || typeof phoneNumber !== 'string') return 'unknown'
    if (phoneNumber.length >= 5) {
      return phoneNumber.slice(0, -5) + 'xxxxx'
    }
    return 'xxxxx'
  }
  \<close>
  On a string of length at least 5, \<^verbatim>\<open>slice(0, -5)\<close> is the prefix that leaves the
  last five code units out.
\<close>

fun obfuscatePhone :: "jsval \<Rightarrow> string" where
  "obfuscatePhone (JStr s) =
     (if \<not> truthy (JStr s) \<or> \<not> is_string (JStr s) then ''unknown''
      else if length s \<ge> 5 then take (length s - 5) s @ ''xxxxx''
      else ''xxxxx'')"
| "obfuscatePhone v = ''unknown''"

section \<open>parseDuration\<close>

text \<open>
  The numbers that \<^verbatim>\<open>parseDuration\<close> computes are IEEE-754 doubles obtained from a
  non-empty string of decimal digits by \<^verbatim>\<open>parseInt\<close> and multiplication with positive
  integer constants: each is a non-negative integer that a double represents, or
  \<^verbatim>\<open>Infinity\<close>.
\<close>

datatype msnum = Ms nat | MsInfinity

text \<open>
  \<open>toNumber n\<close> is the double nearest to the non-negative integer \<open>n\<close> (round to
  nearest, ties to even, 53 bits of precision); integers from \<open>2 ^ 1024 - 2 ^ 970\<close>
  on round to \<^verbatim>\<open>Infinity\<close>.
\<close>

definition toNumber :: "nat \<Rightarrow> msnum" where
  "toNumber n =
     (if n < 2 ^ 53 then Ms n
      else
        let e = floorlog 2 n - 53;
            q = n div 2 ^ e;
            r = n mod 2 ^ e;
            h = 2 ^ (e - 1);
            q' = (if r > h \<or> (r = h \<and> odd q) then q + 1 else q);
            v = q' * 2 ^ e
        in if v \<ge> 2 ^ 1024 then MsInfinity else Ms v)"

text \<open>\<^verbatim>\<open>x * k\<close> for a positive integer constant \<open>k\<close>: the exact product, rounded.\<close>

fun js_times :: "msnum \<Rightarrow> nat \<Rightarrow> msnum" where
  "js_times (Ms a) k = toNumber (a * k)"
| "js_times MsInfinity k = MsInfinity"

text \<open>\<^verbatim>\<open>const DEFAULT_TIME_LIMIT = 2 * 60 * 1000\<close>\<close>

definition DEFAULT_TIME_LIMIT :: msnum where
  "DEFAULT_TIME_LIMIT = js_times (js_times (Ms 2) 60) 1000"

definition is_digit :: "char \<Rightarrow> bool" where
  "is_digit c = (c \<in> set ''0123456789'')"

definition digit_value :: "char \<Rightarrow> nat" where
  "digit_value c = of_char c - 48"

text \<open>The integer that a string of decimal digits denotes.\<close>

definition decimal :: "string \<Rightarrow> nat" where
  "decimal ds = foldl (\<lambda>acc c. acc * 10 + digit_value c) 0 ds"

text \<open>
  \<^verbatim>\<open>parseInt(match[1], 10)\<close>. Its argument is always the first group of the match,
  a non-empty string of digits, so no white space, sign or non-digit suffix is there
  to strip and the result is never \<^verbatim>\<open>NaN\<close>.
\<close>

definition parseInt10 :: "string \<Rightarrow> msnum" where
  "parseInt10 ds = toNumber (decimal ds)"

text \<open>
  \<^verbatim>\<open>durationStr.match(/^(\d+)([sm])$/)\<close>: the whole string is one or more of the
  digits 0 to 9 followed by one \<^verbatim>\<open>s\<close> or \<^verbatim>\<open>m\<close> (the pattern has no flag, so \<^verbatim>\<open>$\<close>
  is the end of the input and \<^verbatim>\<open>\d\<close> is an ASCII digit). The result is the two
  groups, or \<open>None\<close> for \<^verbatim>\<open>null\<close>.
\<close>

definition match_duration :: "string \<Rightarrow> (string \<times> char) option" where
  "match_duration s =
     (if s = [] then None
      else
        let ds = butlast s; u = last s
        in if ds \<noteq> [] \<and> list_all is_digit ds \<and> (u = CHR ''s'' \<or> u = CHR ''m'')
           then Some (ds, u) else None)"

datatype error = TypeError

text \<open>
  \<^verbatim>\<open>
  function parseDuration(durationStr) {
    if (!durationStr) return DEFAULT_TIME_LIMIT
    const match = durationStr.match(/^(\d+)([sm])$/)
    if (!match) return DEFAULT_TIME_LIMIT
    const value = parseInt(match[1], 10)
    const unit = match[2]
    if (unit === 's') return value * 1000
    if (unit === 'm') return value * 60 * 1000
    return DEFAULT_TIME_LIMIT
  }
  \<close>
  A truthy value that is not a string (a non-zero number, \<^verbatim>\<open>true\<close>, an object or an
  array of a JSON body) has no \<^verbatim>\<open>match\<close> method: the call raises a \<^verbatim>\<open>TypeError\<close>.
\<close>

fun parseDuration :: "jsval \<Rightarrow> error + msnum" where
  "parseDuration durationStr =
     (if \<not> truthy durationStr then Inr DEFAULT_TIME_LIMIT
      else case durationStr of
        JStr s \<Rightarrow>
          (case match_duration s of
             None \<Rightarrow> Inr DEFAULT_TIME_LIMIT
           | Some (ds, unit) \<Rightarrow>
               let value = parseInt10 ds
               in if unit = CHR ''s'' then Inr (js_times value 1000)
                  else if unit = CHR ''m'' then Inr (js_times (js_times value 60) 1000)
                  else Inr DEFAULT_TIME_LIMIT)
      | _ \<Rightarrow> Inl TypeError)"

section \<open>The three registries and the timers of the event loop\<close>

text \<open>
  \<^verbatim>\<open>
  const activeCalls = new Map()
  const members = new Map()
  const timers = new Map()
  \<close>
  The keys are the \<^verbatim>\<open>userID\<close> values as received. The \<^verbatim>\<open>timers\<close> map holds the
  \<^verbatim>\<open>Timeout\<close> objects that \<^verbatim>\<open>setTimeout\<close> returned, here their handles. The event
  loop's own list of timeouts that are scheduled and have neither fired nor been
  cleared is \<open>pending\<close>; each carries what its callback
  \<^verbatim>\<open>() => { endCall(userID, callSid) }\<close> has captured. Console output is not part
  of the state.
\<close>

record call_metadata =
  md_callSid :: jsval
  md_other :: "(string \<times> jsval) list"

record callData =
  callSid :: jsval
  startTime :: nat
  metadata :: call_metadata

record member =
  timeLimit :: msnum
  endMessage :: jsval

record timeout =
  handle :: nat
  delay :: nat
  cb_userID :: jsval
  cb_callSid :: jsval

record state =
  activeCalls :: "jsval \<rightharpoonup> callData"
  members :: "jsval \<rightharpoonup> member"
  timers :: "jsval \<rightharpoonup> nat"
  pending :: "timeout list"
  nextHandle :: nat

definition initial_state :: state where
  "initial_state =
     \<lparr>activeCalls = Map.empty, members = Map.empty, timers = Map.empty,
      pending = [], nextHandle = 0\<rparr>"

text \<open>
  The delay that Node gives a timeout: the requested number of milliseconds when it
  is between 1 and \<open>2 ^ 31 - 1\<close>, and 1 otherwise (for 0, for a larger number and for
  \<^verbatim>\<open>Infinity\<close>).
\<close>

definition timeout_after :: "msnum \<Rightarrow> nat" where
  "timeout_after ms =
     (case ms of
        Ms n \<Rightarrow> if 1 \<le> n \<and> n \<le> 2147483647 then n else 1
      | MsInfinity \<Rightarrow> 1)"

text \<open>
  \<^verbatim>\<open>setTimeout(() => { endCall(userID, callSid) }, timeLimit)\<close> schedules a fresh
  timeout and returns it.
\<close>

definition setTimeout :: "jsval \<Rightarrow> jsval \<Rightarrow> msnum \<Rightarrow> state \<Rightarrow> nat \<times> state" where
  "setTimeout uid sid ms st =
     (nextHandle st,
      st\<lparr>pending := pending st @
             [\<lparr>handle = nextHandle st, delay = timeout_after ms, cb_userID = uid,
               cb_callSid = sid\<rparr>],
         nextHandle := Suc (nextHandle st)\<rparr>)"

text \<open>
  \<^verbatim>\<open>clearTimeout(t)\<close> unschedules the timeout; it does nothing for \<^verbatim>\<open>undefined\<close>
  and for a timeout that has fired or been cleared already.
\<close>

definition clearTimeout :: "nat option \<Rightarrow> state \<Rightarrow> state" where
  "clearTimeout t st =
     (case t of
        None \<Rightarrow> st
      | Some h \<Rightarrow> st\<lparr>pending := filter (\<lambda>x. handle x \<noteq> h) (pending st)\<rparr>)"

text \<open>The timeouts of the event loop that will call \<^verbatim>\<open>endCall\<close> for a caller.\<close>

definition live_timers :: "jsval \<Rightarrow> state \<Rightarrow> timeout list" where
  "live_timers uid st = filter (\<lambda>x. cb_userID x = uid) (pending st)"

section \<open>The registration endpoint\<close>

datatype response = Json nat "(string \<times> jsval) list"

record member_body =
  body_userID :: jsval
  body_duration :: jsval
  body_endMessage :: jsval

definition default_endMessage :: string where
  "default_endMessage =
     ''You have reached your time limit. The call will now end. Goodbye.''"

text \<open>
  \<^verbatim>\<open>
  app.post('/api/member', (req, res) => {
    const { userID, duration, endMessage } = req.body
    if (!userID) {
      return res.status(400).json({ error: 'userID is required' })
    }
    const timeLimit = parseDuration(duration)
    members.set(userID, { timeLimit, endMessage: endMessage || '...' })
    if (activeCalls.has(userID)) {
      const callData = activeCalls.get(userID)
      if (timers.has(userID)) {
        clearTimeout(timers.get(userID))
        timers.delete(userID)
      }
      const timer = setTimeout(() => { endCall(userID, callData.callSid) }, timeLimit)
      timers.set(userID, timer)
    }
    return res.status(200).json({ success: true })
  })
  \<close>
  The handler returns the response, or the error that \<^verbatim>\<open>parseDuration\<close> raised
  (which leaves the handler before anything is stored), and the state.
\<close>

definition api_member :: "member_body \<Rightarrow> state \<Rightarrow> (error + response) \<times> state" where
  "api_member body st =
     (let userID = body_userID body in
      if \<not> truthy userID
      then (Inr (Json 400 [(''error'', JStr ''userID is required'')]), st)
      else
        case parseDuration (body_duration body) of
          Inl e \<Rightarrow> (Inl e, st)
        | Inr limit \<Rightarrow>
            let st1 = st\<lparr>members := (members st)(userID \<mapsto>
                        \<lparr>timeLimit = limit,
                         endMessage = (if truthy (body_endMessage body)
                                       then body_endMessage body
                                       else JStr default_endMessage)\<rparr>)\<rparr>
            in case activeCalls st1 userID of
                 Some cd \<Rightarrow>
                   let st2 = (case timers st1 userID of
                                Some h \<Rightarrow>
                                  (clearTimeout (Some h) st1)
                                    \<lparr>timers := (timers st1)(userID := None)\<rparr>
                              | None \<Rightarrow> st1);
                       (timer, st3) = setTimeout userID (callSid cd) limit st2
                   in (Inr (Json 200 [(''success'', JBool True)]),
                       st3\<lparr>timers := (timers st3)(userID \<mapsto> timer)\<rparr>)
               | None \<Rightarrow> (Inr (Json 200 [(''success'', JBool True)]), st1))"

section \<open>The call webhook\<close>

text \<open>
  The event of a webhook request: \<^verbatim>\<open>event.type\<close>, and \<^verbatim>\<open>event.data\<close> with its
  \<^verbatim>\<open>userID\<close> and \<^verbatim>\<open>metadata\<close>. \<open>None\<close> is a \<^verbatim>\<open>data\<close> (a \<^verbatim>\<open>metadata\<close>) whose
  destructuring raises a \<^verbatim>\<open>TypeError\<close> or leads to one: absent or \<^verbatim>\<open>null\<close>, and for
  \<^verbatim>\<open>data\<close> also a value without a \<^verbatim>\<open>metadata\<close> property.
\<close>

record event_data =
  ev_userID :: jsval
  ev_metadata :: "call_metadata option"

record event =
  ev_type :: jsval
  ev_data :: "event_data option"

text \<open>
  \<^verbatim>\<open>
  function handleCallStart(event) {
    const { data } = event
    const { userID, metadata } = data
    const { callSid } = metadata
    const currentTime = Date.now()
    const safeUserID = obfuscatePhone(userID)
    console.log(`Call started: ${callSid} from ${safeUserID} at ${...}`)
    activeCalls.set(userID, { callSid, startTime: currentTime, metadata })
    if (!members.has(userID)) { return }
    const member = members.get(userID)
    const timeLimit = member.timeLimit
    const timer = setTimeout(() => { endCall(userID, callSid) }, timeLimit)
    timers.set(userID, timer)
  }
  \<close>
  \<open>now\<close> is what \<^verbatim>\<open>Date.now()\<close> returns. The log line converts \<^verbatim>\<open>callSid\<close> to a
  string before anything is stored, which can raise.
\<close>

definition handleCallStart :: "event \<Rightarrow> nat \<Rightarrow> state \<Rightarrow> (error + unit) \<times> state" where
  "handleCallStart ev now st =
     (case ev_data ev of
        None \<Rightarrow> (Inl TypeError, st)
      | Some d \<Rightarrow>
          (case ev_metadata d of
             None \<Rightarrow> (Inl TypeError, st)
           | Some md \<Rightarrow>
               let userID = ev_userID d;
                   sid = md_callSid md
               in if toString_raises sid then (Inl TypeError, st)
                  else
                    let st1 = st\<lparr>activeCalls := (activeCalls st)(userID \<mapsto>
                                \<lparr>callSid = sid, startTime = now, metadata = md\<rparr>)\<rparr>
                    in case members st1 userID of
                         None \<Rightarrow> (Inr (), st1)
                       | Some m \<Rightarrow>
                           let (timer, st2) = setTimeout userID sid (timeLimit m) st1
                           in (Inr (),
                               st2\<lparr>timers := (timers st2)(userID \<mapsto> timer)\<rparr>)))"

text \<open>
  \<^verbatim>\<open>
  function handleCallEnd(event) {
    const { data } = event
    const { userID, metadata } = data
    const { callSid } = metadata
    const safeUserID = obfuscatePhone(userID)
    console.log(`Call ended: ${callSid} from ${safeUserID}`)
    if (timers.has(userID)) {
      clearTimeout(timers.get(userID))
      timers.delete(userID)
    }
    activeCalls.delete(userID)
    if (members.has(userID)) { members.delete(userID) }
  }
  \<close>
  Here too the log line converts \<^verbatim>\<open>callSid\<close> to a string before the clean-up.
\<close>

definition handleCallEnd :: "event \<Rightarrow> state \<Rightarrow> (error + unit) \<times> state" where
  "handleCallEnd ev st =
     (case ev_data ev of
        None \<Rightarrow> (Inl TypeError, st)
      | Some d \<Rightarrow>
          (case ev_metadata d of
             None \<Rightarrow> (Inl TypeError, st)
           | Some md \<Rightarrow>
               if toString_raises (md_callSid md) then (Inl TypeError, st)
               else
                 let userID = ev_userID d;
                     st1 = (case timers st userID of
                              Some h \<Rightarrow>
                                (clearTimeout (Some h) st)
                                  \<lparr>timers := (timers st)(userID := None)\<rparr>
                            | None \<Rightarrow> st);
                     st2 = st1\<lparr>activeCalls := (activeCalls st1)(userID := None)\<rparr>;
                     st3 = (case members st2 userID of
                              Some m \<Rightarrow> st2\<lparr>members := (members st2)(userID := None)\<rparr>
                            | None \<Rightarrow> st2)
                 in (Inr (), st3)))"

text \<open>
  \<^verbatim>\<open>
  app.post('/api/call-webhook', (req, res) => {
    const event = req.body
    if (event.type === 'runtime.call.start') {
      handleCallStart(event)
    } else if (event.type === 'runtime.call.end') {
      handleCallEnd(event)
    }
    return res.status(200).json({ success: true })
  })
  \<close>
\<close>

definition api_call_webhook :: "event \<Rightarrow> nat \<Rightarrow> state \<Rightarrow> (error + response) \<times> state" where
  "api_call_webhook ev now st =
     (let (r, st') =
            (if ev_type ev = JStr ''runtime.call.start'' then handleCallStart ev now st
             else if ev_type ev = JStr ''runtime.call.end'' then handleCallEnd ev st
             else (Inr (), st))
      in case r of
           Inl e \<Rightarrow> (Inl e, st')
         | Inr u \<Rightarrow> (Inr (Json 200 [(''success'', JBool True)]), st'))"

section \<open>endCall\<close>

text \<open>
  \<^verbatim>\<open>
  async function endCall(userID, callSid) {
    try {
      const safeUserID = obfuscatePhone(userID)
      if (!activeCalls.has(userID)) { return }
      console.log(`Time limit reached for ${safeUserID}, ending call ${callSid}`)
      const member = members.get(userID) || { endMessage: '...' }
      const accountSid = process.env.TWILIO_ACCOUNT_SID
      const authToken = process.env.TWILIO_AUTH_TOKEN
      const client = new twilio.Twilio(accountSid, authToken)
      const twiml = '<Response>' + '<Pause length="2"/>' +
        `<Say>${member.endMessage}</Say>` + '<Hangup/>' + '</Response>'
      await client.calls(callSid).update({ twiml })
      clearTimeout(timers.get(userID))
      timers.delete(userID)
      activeCalls.delete(userID)
      members.delete(userID)
    } catch (error) {
      console.error(`Error ending call: ${error.message}`)
      console.error(error.stack)
    }
  }
  \<close>
  The function runs in two turns of the event loop. The first ends at the early
  \<^verbatim>\<open>return\<close>, or in the \<^verbatim>\<open>catch\<close> block when an exception is raised before the
  request is sent, or at the \<^verbatim>\<open>await\<close> with the request sent. The second runs when
  the provider has answered: the statements after the \<^verbatim>\<open>await\<close> when the request was
  fulfilled, the \<^verbatim>\<open>catch\<close> block when it was rejected. Other handlers may run
  between the two turns.

  Before the request is sent an exception is raised by the conversion of
  \<^verbatim>\<open>callSid\<close> or of \<^verbatim>\<open>member.endMessage\<close> to a string, for the values for which
  it raises, and by the provider's library while it builds the client (the credentials
  of the process environment) or the request.

  The request is represented by the call it addresses and the end message that the
  response document says.
\<close>

record call_update =
  upd_callSid :: jsval
  upd_endMessage :: jsval

text \<open>
  What the provider's library does: \<open>Throws\<close>, it raises before a request is sent;
  otherwise the request is sent and is \<open>Fulfilled\<close> or \<open>Rejected\<close>.
\<close>

datatype provider_result = Throws | Fulfilled | Rejected

text \<open>
  The request that the first turn prepares: none after the early \<^verbatim>\<open>return\<close> and
  none when one of the two conversions to a string raises.
\<close>

definition endCall_request :: "jsval \<Rightarrow> jsval \<Rightarrow> state \<Rightarrow> call_update option" where
  "endCall_request userID sid st =
     (if activeCalls st userID = None then None
      else if toString_raises sid then None
      else
        let msg = (case members st userID of
                     Some m \<Rightarrow> endMessage m
                   | None \<Rightarrow> JStr default_endMessage)
        in if toString_raises msg then None
           else Some \<lparr>upd_callSid = sid, upd_endMessage = msg\<rparr>)"

text \<open>The second turn, and the \<^verbatim>\<open>catch\<close> block of the first.\<close>

definition endCall_settle :: "provider_result \<Rightarrow> jsval \<Rightarrow> state \<Rightarrow> state" where
  "endCall_settle res userID st =
     (case res of
        Throws \<Rightarrow> st
      | Fulfilled \<Rightarrow>
          let st1 = clearTimeout (timers st userID) st;
              st2 = st1\<lparr>timers := (timers st1)(userID := None)\<rparr>;
              st3 = st2\<lparr>activeCalls := (activeCalls st2)(userID := None)\<rparr>
          in st3\<lparr>members := (members st3)(userID := None)\<rparr>
      | Rejected \<Rightarrow> st)"

text \<open>
  A whole invocation with no other handler in between: the requests sent to the
  provider and the state when the invocation has completed.
\<close>

definition endCall ::
  "provider_result \<Rightarrow> jsval \<Rightarrow> jsval \<Rightarrow> state \<Rightarrow> call_update list \<times> state" where
  "endCall res userID sid st =
     (case endCall_request userID sid st of
        None \<Rightarrow> ([], st)
      | Some req \<Rightarrow>
          (case res of
             Throws \<Rightarrow> ([], st)
           | Fulfilled \<Rightarrow> ([req], endCall_settle Fulfilled userID st)
           | Rejected \<Rightarrow> ([req], endCall_settle Rejected userID st)))"

text \<open>
  A scheduled timeout fires: the event loop takes it off its list and runs the
  callback.
\<close>

definition timer_fires ::
  "nat \<Rightarrow> provider_result \<Rightarrow> state \<Rightarrow> call_update list \<times> state" where
  "timer_fires h res st =
     (case find (\<lambda>x. handle x = h) (pending st) of
        None \<Rightarrow> ([], st)
      | Some t \<Rightarrow>
          endCall res (cb_userID t) (cb_callSid t)
            (st\<lparr>pending := filter (\<lambda>x. handle x \<noteq> h) (pending st)\<rparr>))"

section \<open>Predicates and example states used in the statements\<close>

text \<open>
  A duration token whose digits are all zeros, such as \<^verbatim>\<open>"0s"\<close> or \<^verbatim>\<open>"00m"\<close>.
\<close>

fun zero_token :: "jsval \<Rightarrow> bool" where
  "zero_token (JStr s) =
     (2 \<le> length s \<and> set (butlast s) \<subseteq> {CHR ''0''} \<and>
      (last s = CHR ''s'' \<or> last s = CHR ''m''))"
| "zero_token v = False"

text \<open>No stored member configuration has the empty string as its end message.\<close>

definition endMessages_nonempty :: "state \<Rightarrow> bool" where
  "endMessages_nonempty st =
     (\<forall>uid m. members st uid = Some m \<longrightarrow> endMessage m \<noteq> JStr [])"

text \<open>
  The scenario of the examples: the caller \<^verbatim>\<open>+15551230000\<close> is registered with a
  limit of one second and no end message, then a call of this caller starts, then a
  second call-start event arrives for the same caller.
\<close>

definition example_member_body :: member_body where
  "example_member_body =
     \<lparr>body_userID = JStr ''+15551230000'', body_duration = JStr ''1s'',
      body_endMessage = JUndefined\<rparr>"

definition call_start_event :: "string \<Rightarrow> event" where
  "call_start_event sid =
     \<lparr>ev_type = JStr ''runtime.call.start'',
      ev_data = Some \<lparr>ev_userID = JStr ''+15551230000'',
                      ev_metadata = Some \<lparr>md_callSid = JStr sid, md_other = []\<rparr>\<rparr>\<rparr>"

definition registered_state :: state where
  "registered_state = snd (api_member example_member_body initial_state)"

definition timed_call_state :: state where
  "timed_call_state =
     snd (api_call_webhook (call_start_event ''CA1'') 1000 registered_state)"

definition second_start_state :: state where
  "second_start_state =
     snd (api_call_webhook (call_start_event ''CA2'') 2000 timed_call_state)"

declare parseDuration.simps [simp del]

section \<open>Rounding to a double\<close>

lemma toNumber_exact: "n < 2 ^ 53 \<Longrightarrow> toNumber n = Ms n"
  by (simp add: toNumber_def)

lemma DEFAULT_TIME_LIMIT_eq: "DEFAULT_TIME_LIMIT = Ms 120000"
  by (simp add: DEFAULT_TIME_LIMIT_def toNumber_def)

text \<open>
  The three outcomes of rounding: the integer itself below \<open>2 ^ 53\<close>, a positive
  double within a factor two of it, or \<^verbatim>\<open>Infinity\<close>, which needs at least 1024 bits.
\<close>

lemma toNumber_cases:
  obtains (exact) "n < 2 ^ 53" "toNumber n = Ms n"
  | (rounded) v where "2 ^ 53 \<le> n" "0 < v" "v \<le> 2 * n" "v < 2 ^ 1024" "toNumber n = Ms v"
  | (overflow) "2 ^ 1023 \<le> n" "toNumber n = MsInfinity"
proof (cases "n < 2 ^ 53")
  case True
  then show ?thesis using exact by (simp add: toNumber_def)
next
  case False
  define e where "e = floorlog 2 n - 53"
  define q where "q = n div 2 ^ e"
  define r where "r = n mod 2 ^ e"
  define q' where "q' = (if r > 2 ^ (e - 1) \<or> (r = 2 ^ (e - 1) \<and> odd q) then q + 1 else q)"
  define v where "v = q' * 2 ^ e"
  have tn: "toNumber n = (if v \<ge> 2 ^ 1024 then MsInfinity else Ms v)"
    using False by (simp add: toNumber_def Let_def e_def q_def r_def q'_def v_def)
  have npos: "0 < n" using False by (cases n) auto
  have "(2::nat) ^ (floorlog 2 n - 1) \<le> n"
    using floorlog_bounds [of n 2] npos by simp
  moreover have "(2::nat) ^ e \<le> 2 ^ (floorlog 2 n - 1)"
    by (rule power_increasing) (simp_all add: e_def)
  ultimately have le: "2 ^ e \<le> n" by linarith
  then have qpos: "0 < q" by (simp add: q_def div_greater_zero_iff)
  have "q \<le> q'" by (simp add: q'_def)
  with qpos have "0 < q'" by linarith
  then have vpos: "0 < v" by (simp add: v_def)
  have "q' \<le> q + 1" by (simp add: q'_def)
  then have "v \<le> (q + 1) * 2 ^ e" unfolding v_def by (rule mult_le_mono1)
  also have "\<dots> = q * 2 ^ e + 2 ^ e" by (simp add: algebra_simps)
  also have "q * 2 ^ e \<le> n" by (simp add: q_def)
  finally have vle: "v \<le> 2 * n" using le by linarith
  show ?thesis
  proof (cases "v \<ge> 2 ^ 1024")
    case True
    then show ?thesis using overflow tn vle by simp
  next
    case F: False
    then show ?thesis using rounded [of v] tn False vpos vle by simp
  qed
qed

lemma toNumber_zero_iff: "toNumber n = Ms 0 \<longleftrightarrow> n = 0"
  by (cases n rule: toNumber_cases) auto

lemma toNumber_bound: "toNumber n = Ms m \<Longrightarrow> m \<le> 2 * n"
  by (cases n rule: toNumber_cases) auto

lemma toNumber_finite: "n < 2 ^ 1023 \<Longrightarrow> \<exists>m. toNumber n = Ms m"
  by (cases n rule: toNumber_cases) auto

lemma js_times_zero_iff: "0 < k \<Longrightarrow> js_times x k = Ms 0 \<longleftrightarrow> x = Ms 0"
  by (cases x) (simp_all add: toNumber_zero_iff)

lemma js_times_finite:
  "a * k < 2 ^ 1023 \<Longrightarrow> \<exists>b. js_times (Ms a) k = Ms b \<and> b \<le> 2 * (a * k)"
  using toNumber_finite [of "a * k"] toNumber_bound [of "a * k"] by auto

text \<open>A digit count below \<open>2 ^ 1000\<close> stays finite through both multiplications.\<close>

lemma duration_finite:
  assumes "d < 2 ^ 1000"
  shows "\<exists>n. js_times (toNumber d) 1000 = Ms n"
    and "\<exists>n. js_times (js_times (toNumber d) 60) 1000 = Ms n"
proof -
  have p: "(2::nat) ^ 1001 = 2 * 2 ^ 1000" "(2::nat) ^ 1007 = 64 * 2 ^ 1001"
    "(2::nat) ^ 1008 = 2 * 2 ^ 1007" "(2::nat) ^ 1018 = 1024 * 2 ^ 1008"
    "(2::nat) ^ 1023 = 32 * 2 ^ 1018"
    by simp_all
  have "d < 2 ^ 1023" using assms p by linarith
  then obtain a where a: "toNumber d = Ms a" using toNumber_finite by blast
  then have a_le: "a < 2 ^ 1001" using toNumber_bound [of d a] assms p by linarith
  then have "a * 1000 < 2 ^ 1023" using p by linarith
  then show "\<exists>n. js_times (toNumber d) 1000 = Ms n"
    using js_times_finite [of a 1000] a by auto
  have "a * 60 < 2 ^ 1007" using a_le p by linarith
  moreover from this have "a * 60 < 2 ^ 1023" using p by linarith
  ultimately obtain b where b: "js_times (Ms a) 60 = Ms b" "b < 2 ^ 1008"
    using js_times_finite [of a 60] p by auto
  then have "b * 1000 < 2 ^ 1023" using p by linarith
  then show "\<exists>n. js_times (js_times (toNumber d) 60) 1000 = Ms n"
    using js_times_finite [of b 1000] a b by auto
qed

section \<open>Digits and the duration pattern\<close>

lemma decimal_Nil: "decimal [] = 0"
  by (simp add: decimal_def)

lemma decimal_snoc: "decimal (ds @ [c]) = decimal ds * 10 + digit_value c"
  by (simp add: decimal_def)

lemma digit_value_digit:
  "is_digit c \<Longrightarrow> digit_value c \<le> 9 \<and> (digit_value c = 0 \<longleftrightarrow> c = CHR ''0'')"
  by (auto simp add: is_digit_def digit_value_def)

lemma decimal_zero_iff:
  "list_all is_digit ds \<Longrightarrow> decimal ds = 0 \<longleftrightarrow> set ds \<subseteq> {CHR ''0''}"
proof (induction ds rule: rev_induct)
  case Nil
  then show ?case by (simp add: decimal_Nil)
next
  case (snoc c ds)
  then show ?case using digit_value_digit [of c] by (auto simp add: decimal_snoc)
qed

lemma decimal_less: "list_all is_digit ds \<Longrightarrow> decimal ds < 10 ^ length ds"
proof (induction ds rule: rev_induct)
  case Nil
  then show ?case by (simp add: decimal_Nil)
next
  case (snoc c ds)
  then have "decimal ds < 10 ^ length ds" "digit_value c \<le> 9"
    using digit_value_digit [of c] by simp_all
  then show ?case by (simp add: decimal_snoc)
qed

lemma pow10_300: "(10::nat) ^ 300 < 2 ^ 1000"
proof -
  have "(10::nat) ^ 300 = (10 ^ 3) ^ 100" by (simp flip: power_mult)
  also have "\<dots> < (2 ^ 10) ^ 100" by (rule power_strict_mono) simp_all
  also have "\<dots> = 2 ^ 1000" by (simp flip: power_mult)
  finally show ?thesis .
qed

lemma decimal_300:
  assumes "list_all is_digit ds" "length ds \<le> 300"
  shows "decimal ds < 2 ^ 1000"
proof -
  have "decimal ds < 10 ^ length ds" using assms(1) by (rule decimal_less)
  also have "\<dots> \<le> (10::nat) ^ 300" using assms(2) by (intro power_increasing) simp_all
  also have "\<dots> < 2 ^ 1000" by (rule pow10_300)
  finally show ?thesis .
qed

lemma zeros_are_digits: "set ds \<subseteq> {CHR ''0''} \<Longrightarrow> list_all is_digit ds"
  unfolding list_all_iff is_digit_def by fastforce

lemma match_duration_snoc:
  "match_duration (ds @ [u]) =
     (if ds \<noteq> [] \<and> list_all is_digit ds \<and> (u = CHR ''s'' \<or> u = CHR ''m'')
      then Some (ds, u) else None)"
  by (simp add: match_duration_def)

lemma match_duration_Some_iff:
  "match_duration s \<noteq> None \<longleftrightarrow>
     (\<exists>ds u. s = ds @ [u] \<and> ds \<noteq> [] \<and> list_all is_digit ds \<and>
        (u = CHR ''s'' \<or> u = CHR ''m''))"
proof (cases s rule: rev_cases)
  case Nil
  then show ?thesis by (simp add: match_duration_def)
next
  case (snoc ds u)
  then show ?thesis by (simp add: match_duration_snoc)
qed

section \<open>The results of parseDuration\<close>

lemma parseDuration_falsy: "\<not> truthy d \<Longrightarrow> parseDuration d = Inr (Ms 120000)"
  by (simp add: parseDuration.simps DEFAULT_TIME_LIMIT_eq)

lemma parseDuration_no_match:
  "match_duration s = None \<Longrightarrow> parseDuration (JStr s) = Inr (Ms 120000)"
  by (simp add: parseDuration.simps DEFAULT_TIME_LIMIT_eq)

lemma parseDuration_raises:
  "truthy d \<Longrightarrow> \<not> is_string d \<Longrightarrow> parseDuration d = Inl TypeError"
  by (cases d) (simp_all add: parseDuration.simps)

lemma parseDuration_seconds:
  "ds \<noteq> [] \<Longrightarrow> list_all is_digit ds \<Longrightarrow>
   parseDuration (JStr (ds @ ''s'')) = Inr (js_times (toNumber (decimal ds)) 1000)"
  by (simp add: parseDuration.simps match_duration_snoc parseInt10_def)

lemma parseDuration_minutes:
  "ds \<noteq> [] \<Longrightarrow> list_all is_digit ds \<Longrightarrow>
   parseDuration (JStr (ds @ ''m'')) =
     Inr (js_times (js_times (toNumber (decimal ds)) 60) 1000)"
  by (simp add: parseDuration.simps match_duration_snoc parseInt10_def)

text \<open>The four ways in which \<open>parseDuration\<close> ends.\<close>

lemma parseDuration_cases:
  obtains (raises) "truthy d" "\<not> is_string d" "parseDuration d = Inl TypeError"
  | (default) "\<not> truthy d \<or> (\<exists>s. d = JStr s \<and> match_duration s = None)"
      "parseDuration d = Inr (Ms 120000)"
  | (seconds) ds where "d = JStr (ds @ ''s'')" "ds \<noteq> []" "list_all is_digit ds"
      "parseDuration d = Inr (js_times (toNumber (decimal ds)) 1000)"
  | (minutes) ds where "d = JStr (ds @ ''m'')" "ds \<noteq> []" "list_all is_digit ds"
      "parseDuration d = Inr (js_times (js_times (toNumber (decimal ds)) 60) 1000)"
proof (cases "truthy d")
  case False
  then show ?thesis using default by (simp add: parseDuration_falsy)
next
  case True
  show ?thesis
  proof (cases "is_string d")
    case False
    with True show ?thesis using raises by (simp add: parseDuration_raises)
  next
    case str: True
    then obtain s where d: "d = JStr s" by (cases d) simp_all
    show ?thesis
    proof (cases "match_duration s")
      case None
      then show ?thesis using default d by (simp add: parseDuration_no_match)
    next
      case (Some p)
      then obtain ds u where s: "s = ds @ [u]" "ds \<noteq> []" "list_all is_digit ds"
        "u = CHR ''s'' \<or> u = CHR ''m''"
        using match_duration_Some_iff [of s] by auto
      from s(4) show ?thesis
      proof
        assume "u = CHR ''s''"
        then show ?thesis
          using seconds [of ds] parseDuration_seconds [of ds] s d by simp
      next
        assume "u = CHR ''m''"
        then show ?thesis
          using minutes [of ds] parseDuration_minutes [of ds] s d by simp
      qed
    qed
  qed
qed

lemmas parse_eval =
  parseDuration.simps match_duration_def is_digit_def parseInt10_def decimal_def
  digit_value_def toNumber_def DEFAULT_TIME_LIMIT_eq

lemma parseDuration_30s: "parseDuration (JStr ''30s'') = Inr (Ms 30000)"
  by (simp add: parse_eval)

lemma parseDuration_5m: "parseDuration (JStr ''5m'') = Inr (Ms 300000)"
  by (simp add: parse_eval)

lemma parseDuration_empty: "parseDuration (JStr '''') = Inr (Ms 120000)"
  by (simp add: parse_eval)

lemma parseDuration_10: "parseDuration (JStr ''10'') = Inr (Ms 120000)"
  by (simp add: parse_eval)

lemma parseDuration_5h: "parseDuration (JStr ''5h'') = Inr (Ms 120000)"
  by (simp add: parse_eval)

lemma parseDuration_m5: "parseDuration (JStr ''m5'') = Inr (Ms 120000)"
  by (simp add: parse_eval)

lemma parseDuration_1s: "parseDuration (JStr ''1s'') = Inr (Ms 1000)"
  by (simp add: parse_eval)

lemma parseDuration_0s: "parseDuration (JStr ''0s'') = Inr (Ms 0)"
  by (simp add: parse_eval)

text \<open>The first integer that a double does not represent, as a token of seconds.\<close>

lemma decimal_2_53_1: "decimal ''9007199254740993'' = 9007199254740993"
  by (simp add: decimal_def digit_value_def)

lemma toNumber_2_53_1: "toNumber 9007199254740993 = Ms 9007199254740992"
proof -
  have "floorlog 2 9007199254740993 = 54"
    by (simp add: compute_floorlog)
  then show ?thesis by (simp add: toNumber_def)
qed

lemma toNumber_2_53_1000: "toNumber 9007199254740992000 = Ms 9007199254740992000"
proof -
  have "floorlog 2 9007199254740992000 = 63"
    by (simp add: compute_floorlog)
  then show ?thesis by (simp add: toNumber_def)
qed

lemma parseDuration_2_53_1:
  "parseDuration (JStr ''9007199254740993s'') = Inr (Ms 9007199254740992000)"
  by (simp add: parseDuration.simps match_duration_def is_digit_def parseInt10_def
      decimal_2_53_1 toNumber_2_53_1 toNumber_2_53_1000)

lemma zero_token_snoc:
  "zero_token (JStr (ds @ [u])) \<longleftrightarrow>
     ds \<noteq> [] \<and> set ds \<subseteq> {CHR ''0''} \<and> (u = CHR ''s'' \<or> u = CHR ''m'')"
  by (cases ds) auto

lemma zero_token_matches: "zero_token (JStr s) \<Longrightarrow> match_duration s \<noteq> None"
proof (cases s rule: rev_cases)
  case Nil
  assume "zero_token (JStr s)"
  then show ?thesis by (simp add: Nil)
next
  case (snoc ds u)
  assume "zero_token (JStr s)"
  then have "ds \<noteq> []" "set ds \<subseteq> {CHR ''0''}" "u = CHR ''s'' \<or> u = CHR ''m''"
    unfolding snoc zero_token_snoc by blast+
  then show ?thesis
    using zeros_are_digits [of ds] by (simp add: snoc match_duration_snoc)
qed

lemma zero_token_truthy: "zero_token d \<Longrightarrow> truthy d"
  by (cases d) auto

lemma parseDuration_zero_iff:
  assumes "parseDuration d = Inr t"
  shows "t = Ms 0 \<longleftrightarrow> zero_token d"
proof (cases d rule: parseDuration_cases)
  case raises
  then show ?thesis using assms by simp
next
  case default
  then have t: "t = Ms 120000" using assms by simp
  have "\<not> zero_token d"
    using default(1) zero_token_matches [of "case d of JStr s \<Rightarrow> s"] zero_token_truthy [of d]
    by (cases d) auto
  then show ?thesis using t by simp
next
  case (seconds ds)
  then have t: "t = js_times (toNumber (decimal ds)) 1000" using assms by simp
  have "t = Ms 0 \<longleftrightarrow> set ds \<subseteq> {CHR ''0''}"
    using seconds(3) by (simp add: t js_times_zero_iff toNumber_zero_iff decimal_zero_iff)
  then show ?thesis using seconds(2) unfolding seconds(1) zero_token_snoc by simp
next
  case (minutes ds)
  then have t: "t = js_times (js_times (toNumber (decimal ds)) 60) 1000"
    using assms by simp
  have "t = Ms 0 \<longleftrightarrow> set ds \<subseteq> {CHR ''0''}"
    using minutes(3) by (simp add: t js_times_zero_iff toNumber_zero_iff decimal_zero_iff)
  then show ?thesis using minutes(2) unfolding minutes(1) zero_token_snoc by simp
qed

lemma parseDuration_finite:
  assumes "parseDuration (JStr s) = Inr t" "length s \<le> 300"
  shows "\<exists>n. t = Ms n"
proof (cases "JStr s" rule: parseDuration_cases)
  case raises
  then show ?thesis by simp
next
  case default
  then show ?thesis using assms(1) by simp
next
  case (seconds ds)
  then have "length ds \<le> 300" using assms(2) by simp
  then show ?thesis
    using duration_finite(1) [OF decimal_300 [OF seconds(3)]] seconds(4) assms(1) by simp
next
  case (minutes ds)
  then have "length ds \<le> 300" using assms(2) by simp
  then show ?thesis
    using duration_finite(2) [OF decimal_300 [OF minutes(3)]] minutes(4) assms(1) by simp
qed

lemma parseDuration_nonstring:
  assumes "parseDuration d = Inr t" "\<not> is_string d"
  shows "t = Ms 120000"
proof (cases d rule: parseDuration_cases)
  case raises
  then show ?thesis using assms by simp
next
  case default
  then show ?thesis using assms by simp
next
  case (seconds ds)
  then show ?thesis using assms by simp
next
  case (minutes ds)
  then show ?thesis using assms by simp
qed

section \<open>The registration handler, path by path\<close>

lemma api_member_falsy:
  "\<not> truthy (body_userID body) \<Longrightarrow>
   api_member body st = (Inr (Json 400 [(''error'', JStr ''userID is required'')]), st)"
  by (simp add: api_member_def)

lemma api_member_raises:
  "truthy (body_userID body) \<Longrightarrow> parseDuration (body_duration body) = Inl e \<Longrightarrow>
   api_member body st = (Inl e, st)"
  by (simp add: api_member_def)

lemma api_member_members:
  "truthy (body_userID body) \<Longrightarrow> parseDuration (body_duration body) = Inr t \<Longrightarrow>
   members (snd (api_member body st)) =
     (members st)(body_userID body \<mapsto>
        \<lparr>timeLimit = t,
         endMessage = (if truthy (body_endMessage body) then body_endMessage body
                       else JStr default_endMessage)\<rparr>)"
  by (simp add: api_member_def setTimeout_def clearTimeout_def Let_def split: option.split)

lemma api_member_preserves_endMessages:
  "endMessages_nonempty st \<Longrightarrow> endMessages_nonempty (snd (api_member body st))"
proof (cases "truthy (body_userID body)")
  case False
  assume "endMessages_nonempty st"
  then show ?thesis using False by (simp add: api_member_falsy)
next
  case True
  assume inv: "endMessages_nonempty st"
  show ?thesis
  proof (cases "parseDuration (body_duration body)")
    case (Inl e)
    then show ?thesis using True inv by (simp add: api_member_raises)
  next
    case (Inr t)
    show ?thesis
      using inv unfolding endMessages_nonempty_def api_member_members [OF True Inr]
      by (auto simp add: default_endMessage_def)
  qed
qed

text \<open>
  When the only scheduled timeouts of the caller are the one that the \<open>timers\<close> map
  holds, a registration during a call leaves exactly the new timeout.
\<close>

lemma api_member_replaces_timer:
  assumes "truthy (body_userID body)" "parseDuration (body_duration body) = Inr t"
    and "activeCalls st (body_userID body) = Some cd"
    and "\<And>x. x \<in> set (live_timers (body_userID body) st) \<Longrightarrow>
           timers st (body_userID body) = Some (handle x)"
  shows "live_timers (body_userID body) (snd (api_member body st)) =
           [\<lparr>handle = nextHandle st, delay = timeout_after t,
             cb_userID = body_userID body, cb_callSid = callSid cd\<rparr>]"
proof (cases "timers st (body_userID body)")
  case None
  then have "live_timers (body_userID body) st = []"
    using assms(4) by (cases "live_timers (body_userID body) st") auto
  then show ?thesis
    using assms(1-3) None
    by (simp add: api_member_def setTimeout_def live_timers_def Let_def)
next
  case (Some h)
  have "filter (\<lambda>x. handle x \<noteq> h) (live_timers (body_userID body) st) = []"
    using assms(4) Some by (auto simp add: filter_empty_conv)
  then have "filter (\<lambda>x. cb_userID x = body_userID body)
      (filter (\<lambda>x. handle x \<noteq> h) (pending st)) = []"
    by (simp add: live_timers_def conj_commute)
  then show ?thesis
    using assms(1-3) Some
    by (simp add: api_member_def setTimeout_def clearTimeout_def live_timers_def Let_def)
qed

section \<open>Call start and call end\<close>

text \<open>
  A call-start event for a registered caller appends a timeout to those already
  scheduled for the caller; none is cleared.
\<close>

lemma handleCallStart_adds_timer:
  assumes "ev_data ev = Some d" "ev_metadata d = Some md" "members st (ev_userID d) = Some m"
    and "\<not> toString_raises (md_callSid md)"
  shows "live_timers (ev_userID d) (snd (handleCallStart ev now st)) =
           live_timers (ev_userID d) st @
           [\<lparr>handle = nextHandle st, delay = timeout_after (timeLimit m),
             cb_userID = ev_userID d, cb_callSid = md_callSid md\<rparr>]"
  using assms by (simp add: handleCallStart_def setTimeout_def live_timers_def Let_def)

lemma endCall_settle_Fulfilled:
  "timers (endCall_settle Fulfilled userID st) userID = None \<and>
   activeCalls (endCall_settle Fulfilled userID st) userID = None \<and>
   members (endCall_settle Fulfilled userID st) userID = None"
  by (simp add: endCall_settle_def clearTimeout_def Let_def split: option.split)

lemma endCall_settle_Rejected: "endCall_settle Rejected userID st = st"
  by (simp add: endCall_settle_def)

lemma endCall_unsent:
  "fst (endCall res userID sid st) = [] \<Longrightarrow> snd (endCall res userID sid st) = st"
  by (cases res)
    (simp_all add: endCall_def endCall_settle_def split: option.splits)

lemma endCall_Throws: "endCall Throws userID sid st = ([], st)"
  by (simp add: endCall_def split: option.split)

lemma endCall_Rejected: "snd (endCall Rejected userID sid st) = st"
  by (simp add: endCall_def endCall_settle_def split: option.split)

lemma endCall_Fulfilled_sent:
  "fst (endCall Fulfilled userID sid st) \<noteq> [] \<Longrightarrow>
   snd (endCall Fulfilled userID sid st) = endCall_settle Fulfilled userID st"
  by (simp add: endCall_def split: option.splits)

lemma endCall_settle_live_timers:
  "live_timers userID (endCall_settle Fulfilled userID st) =
     filter (\<lambda>x. Some (handle x) \<noteq> timers st userID) (live_timers userID st)"
  by (cases "timers st userID")
    (auto simp add: endCall_settle_def clearTimeout_def live_timers_def Let_def
      intro: filter_cong)

section \<open>The example scenario, evaluated\<close>

lemma registered_state_eq:
  "registered_state =
     \<lparr>activeCalls = Map.empty,
      members = [JStr ''+15551230000'' \<mapsto>
                  \<lparr>timeLimit = Ms 1000, endMessage = JStr default_endMessage\<rparr>],
      timers = Map.empty, pending = [], nextHandle = 0\<rparr>"
  unfolding registered_state_def api_member_def example_member_body_def initial_state_def
  by (simp add: parseDuration_1s)

lemma timed_call_state_eq:
  "timed_call_state =
     \<lparr>activeCalls = [JStr ''+15551230000'' \<mapsto>
         \<lparr>callSid = JStr ''CA1'', startTime = 1000,
          metadata = \<lparr>md_callSid = JStr ''CA1'', md_other = []\<rparr>\<rparr>],
      members = [JStr ''+15551230000'' \<mapsto>
                  \<lparr>timeLimit = Ms 1000, endMessage = JStr default_endMessage\<rparr>],
      timers = [JStr ''+15551230000'' \<mapsto> 0],
      pending = [\<lparr>handle = 0, delay = 1000, cb_userID = JStr ''+15551230000'',
                  cb_callSid = JStr ''CA1''\<rparr>],
      nextHandle = 1\<rparr>"
  unfolding timed_call_state_def registered_state_eq
  by (simp add: api_call_webhook_def call_start_event_def handleCallStart_def setTimeout_def
      timeout_after_def Let_def)

lemma second_start_state_eq:
  "second_start_state =
     \<lparr>activeCalls = [JStr ''+15551230000'' \<mapsto>
         \<lparr>callSid = JStr ''CA2'', startTime = 2000,
          metadata = \<lparr>md_callSid = JStr ''CA2'', md_other = []\<rparr>\<rparr>],
      members = [JStr ''+15551230000'' \<mapsto>
                  \<lparr>timeLimit = Ms 1000, endMessage = JStr default_endMessage\<rparr>],
      timers = [JStr ''+15551230000'' \<mapsto> 1],
      pending = [\<lparr>handle = 0, delay = 1000, cb_userID = JStr ''+15551230000'',
                  cb_callSid = JStr ''CA1''\<rparr>,
                 \<lparr>handle = 1, delay = 1000, cb_userID = JStr ''+15551230000'',
                  cb_callSid = JStr ''CA2''\<rparr>],
      nextHandle = 2\<rparr>"
  unfolding second_start_state_def timed_call_state_eq
  by (simp add: api_call_webhook_def call_start_event_def handleCallStart_def setTimeout_def
      timeout_after_def Let_def)

section \<open>Call termination\<close>

text \<open>
  Claim C1, as the code has it, for an invocation of \<open>endCall\<close> for a caller with an
  active call. When the request is sent and the provider fulfils it, the entries of
  the caller in \<open>timers\<close>, \<open>activeCalls\<close> and \<open>members\<close> are removed and the timeout
  that \<open>timers\<close> held is cleared; the second turn does so in whatever state \<open>st'\<close> it
  finds. When the request is rejected, and when an exception is raised before a
  request is sent, the state is left as it was: the clean-up statements are inside the
  \<^verbatim>\<open>try\<close> block, after the \<^verbatim>\<open>await\<close>.
\<close>

theorem endCall_cleanup_on_success:
  assumes "activeCalls st userID \<noteq> None"
  shows "(fst (endCall Fulfilled userID sid st) \<noteq> [] \<longrightarrow>
            timers (snd (endCall Fulfilled userID sid st)) userID = None \<and>
            activeCalls (snd (endCall Fulfilled userID sid st)) userID = None \<and>
            members (snd (endCall Fulfilled userID sid st)) userID = None \<and>
            live_timers userID (snd (endCall Fulfilled userID sid st)) =
              filter (\<lambda>x. Some (handle x) \<noteq> timers st userID) (live_timers userID st)) \<and>
         timers (endCall_settle Fulfilled userID st') userID = None \<and>
         activeCalls (endCall_settle Fulfilled userID st') userID = None \<and>
         members (endCall_settle Fulfilled userID st') userID = None \<and>
         snd (endCall Rejected userID sid st) = st \<and>
         snd (endCall Throws userID sid st) = st \<and>
         (fst (endCall res userID sid' st) = [] \<longrightarrow> snd (endCall res userID sid' st) = st)"
proof -
  have "fst (endCall Fulfilled userID sid st) \<noteq> [] \<longrightarrow>
            timers (snd (endCall Fulfilled userID sid st)) userID = None \<and>
            activeCalls (snd (endCall Fulfilled userID sid st)) userID = None \<and>
            members (snd (endCall Fulfilled userID sid st)) userID = None \<and>
            live_timers userID (snd (endCall Fulfilled userID sid st)) =
              filter (\<lambda>x. Some (handle x) \<noteq> timers st userID) (live_timers userID st)"
    using endCall_settle_Fulfilled [of userID st] endCall_settle_live_timers [of userID st]
    by (simp add: endCall_Fulfilled_sent)
  then show ?thesis
    using endCall_settle_Fulfilled [of userID st'] endCall_Rejected [of userID sid st]
      endCall_unsent [of res userID sid' st]
    by (simp add: endCall_Throws)
qed

text \<open>
  The theorem at the example call: the fulfilled request leaves no entry and no
  timeout, the rejected one leaves everything, and so does the invocation that sends
  no request because the call identifier has no string form.
\<close>

theorem endCall_cleanup_on_success_witness:
  "activeCalls timed_call_state (JStr ''+15551230000'') \<noteq> None \<and>
   fst (endCall Fulfilled (JStr ''+15551230000'') (JStr ''CA1'') timed_call_state) \<noteq> [] \<and>
   snd (endCall Fulfilled (JStr ''+15551230000'') (JStr ''CA1'') timed_call_state) =
     initial_state\<lparr>nextHandle := 1\<rparr> \<and>
   snd (endCall Rejected (JStr ''+15551230000'') (JStr ''CA1'') timed_call_state) =
     timed_call_state \<and>
   fst (endCall Fulfilled (JStr ''+15551230000'') (JRef 0 False) timed_call_state) = [] \<and>
   snd (endCall Fulfilled (JStr ''+15551230000'') (JRef 0 False) timed_call_state) =
     timed_call_state"
proof -
  have a: "activeCalls timed_call_state (JStr ''+15551230000'') \<noteq> None"
    by (simp add: timed_call_state_eq)
  have s: "snd (endCall Fulfilled (JStr ''+15551230000'') (JStr ''CA1'') timed_call_state) =
     initial_state\<lparr>nextHandle := 1\<rparr>"
    by (simp add: timed_call_state_eq endCall_def endCall_request_def endCall_settle_def
        clearTimeout_def initial_state_def Let_def)
  have f: "fst (endCall Fulfilled (JStr ''+15551230000'') (JStr ''CA1'') timed_call_state) =
     [\<lparr>upd_callSid = JStr ''CA1'', upd_endMessage = JStr default_endMessage\<rparr>]"
    by (simp add: timed_call_state_eq endCall_def endCall_request_def Let_def)
  have n: "fst (endCall Fulfilled (JStr ''+15551230000'') (JRef 0 False) timed_call_state) = []"
    by (simp add: timed_call_state_eq endCall_def endCall_request_def Let_def)
  show ?thesis
    using a s f n
      endCall_cleanup_on_success [OF a, of "JStr ''CA1''" timed_call_state Fulfilled
        "JRef 0 False"]
    by simp
qed

text \<open>
  Clean-up is not unconditional: after a rejected request for the example call, the
  caller still has an active call, a member configuration and a timer entry.
\<close>

theorem endCall_rejected_keeps_state_counterexample:
  "activeCalls timed_call_state (JStr ''+15551230000'') \<noteq> None \<and>
   activeCalls (snd (endCall Rejected (JStr ''+15551230000'') (JStr ''CA1'') timed_call_state))
     (JStr ''+15551230000'') \<noteq> None \<and>
   members (snd (endCall Rejected (JStr ''+15551230000'') (JStr ''CA1'') timed_call_state))
     (JStr ''+15551230000'') \<noteq> None \<and>
   timers (snd (endCall Rejected (JStr ''+15551230000'') (JStr ''CA1'') timed_call_state))
     (JStr ''+15551230000'') \<noteq> None"
  by (simp add: timed_call_state_eq endCall_def endCall_request_def endCall_settle_def Let_def)

text \<open>
  Claim C8. For a caller without an active call, \<open>endCall\<close> issues no request and
  returns with the state unchanged, and so does a second invocation after it.
\<close>

theorem endCall_inactive_noop:
  "activeCalls st userID = None \<Longrightarrow>
   endCall_request userID sid st = None \<and>
   endCall res userID sid st = ([], st) \<and>
   endCall res' userID sid' (snd (endCall res userID sid st)) = ([], st)"
  by (simp add: endCall_def endCall_request_def)

theorem endCall_inactive_noop_witness:
  "activeCalls registered_state (JStr ''+15551230000'') = None \<and>
   endCall Fulfilled (JStr ''+15551230000'') (JStr ''CA1'') registered_state =
     ([], registered_state) \<and>
   endCall Fulfilled (JStr ''+15551230000'') (JStr ''CA1'')
     (snd (endCall Fulfilled (JStr ''+15551230000'') (JStr ''CA1'') registered_state)) =
     ([], registered_state)"
  using endCall_inactive_noop
    [of registered_state "JStr ''+15551230000''" "JStr ''CA1''" Fulfilled Fulfilled
      "JStr ''CA1''"]
  by (simp add: registered_state_eq)

section \<open>One timer per caller\<close>

text \<open>
  Claim C2 at the example scenario. After a registration and two call-start events
  for the same caller, each answered with status 200, two timeouts of this caller are
  scheduled, the first for the
  call \<^verbatim>\<open>CA1\<close>, the second for the call \<^verbatim>\<open>CA2\<close>, and the \<open>timers\<close> map holds
  the second only: \<open>handleCallStart\<close> stores the new timeout without clearing the
  one in the map, which the registration handler does (\<open>api_member_replaces_timer\<close>).
\<close>

theorem handleCallStart_stacks_timers:
  "fst (api_member example_member_body initial_state) =
     Inr (Json 200 [(''success'', JBool True)]) \<and>
   fst (api_call_webhook (call_start_event ''CA1'') 1000 registered_state) =
     Inr (Json 200 [(''success'', JBool True)]) \<and>
   fst (api_call_webhook (call_start_event ''CA2'') 2000 timed_call_state) =
     Inr (Json 200 [(''success'', JBool True)]) \<and>
   map cb_callSid (live_timers (JStr ''+15551230000'') second_start_state) =
     [JStr ''CA1'', JStr ''CA2''] \<and>
   map handle (live_timers (JStr ''+15551230000'') second_start_state) = [0, 1] \<and>
   timers second_start_state (JStr ''+15551230000'') = Some 1"
proof -
  have "fst (api_member example_member_body initial_state) =
     Inr (Json 200 [(''success'', JBool True)])"
    unfolding api_member_def example_member_body_def initial_state_def
    by (simp add: parseDuration_1s)
  moreover have "fst (api_call_webhook (call_start_event ''CA1'') 1000 registered_state) =
     Inr (Json 200 [(''success'', JBool True)])"
    unfolding registered_state_eq
    by (simp add: api_call_webhook_def call_start_event_def handleCallStart_def
        setTimeout_def Let_def)
  moreover have "fst (api_call_webhook (call_start_event ''CA2'') 2000 timed_call_state) =
     Inr (Json 200 [(''success'', JBool True)])"
    unfolding timed_call_state_eq
    by (simp add: api_call_webhook_def call_start_event_def handleCallStart_def
        setTimeout_def Let_def)
  ultimately show ?thesis
    by (simp add: second_start_state_eq live_timers_def)
qed

section \<open>Registration\<close>

text \<open>
  Claim C3, as the code has it. An accepted registration whose duration the parser
  takes stores the parsed limit. The limit is zero exactly for a token of zeros (such
  as \<^verbatim>\<open>"0s"\<close>), it is a non-negative integer for every string of at most 300
  characters, and it is 120000 when the duration is not a string.
\<close>

theorem api_member_timeLimit:
  assumes "truthy (body_userID body)" "parseDuration (body_duration body) = Inr t"
  shows "(\<exists>m. members (snd (api_member body st)) (body_userID body) = Some m \<and>
            timeLimit m = t) \<and>
         (t = Ms 0 \<longleftrightarrow> zero_token (body_duration body)) \<and>
         (\<forall>s. body_duration body = JStr s \<and> length s \<le> 300 \<longrightarrow> (\<exists>n. t = Ms n)) \<and>
         (\<not> is_string (body_duration body) \<longrightarrow> t = Ms 120000)"
proof -
  have "\<exists>m. members (snd (api_member body st)) (body_userID body) = Some m \<and>
      timeLimit m = t"
    using assms by (simp add: api_member_members)
  moreover have "t = Ms 0 \<longleftrightarrow> zero_token (body_duration body)"
    using assms(2) by (rule parseDuration_zero_iff)
  moreover have "\<forall>s. body_duration body = JStr s \<and> length s \<le> 300 \<longrightarrow> (\<exists>n. t = Ms n)"
    using assms(2) parseDuration_finite by auto
  moreover have "\<not> is_string (body_duration body) \<longrightarrow> t = Ms 120000"
    using assms(2) parseDuration_nonstring by blast
  ultimately show ?thesis by blast
qed

theorem api_member_timeLimit_witness:
  "truthy (body_userID example_member_body) \<and>
   parseDuration (body_duration example_member_body) = Inr (Ms 1000) \<and>
   members (snd (api_member example_member_body initial_state)) (JStr ''+15551230000'') =
     Some \<lparr>timeLimit = Ms 1000, endMessage = JStr default_endMessage\<rparr> \<and>
   \<not> zero_token (body_duration example_member_body) \<and>
   body_duration example_member_body = JStr ''1s'' \<and> length ''1s'' \<le> (300::nat)"
proof -
  have h: "truthy (body_userID example_member_body)"
    "parseDuration (body_duration example_member_body) = Inr (Ms 1000)"
    by (simp_all add: example_member_body_def parseDuration_1s)
  show ?thesis
    using h api_member_timeLimit [OF h, of initial_state] registered_state_eq
    by (simp add: registered_state_def example_member_body_def)
qed

text \<open>
  The registration with the duration \<^verbatim>\<open>"0s"\<close> is accepted and stores the limit 0,
  which is not positive.
\<close>

theorem api_member_zero_timeLimit_counterexample:
  "truthy (body_userID (example_member_body\<lparr>body_duration := JStr ''0s''\<rparr>)) \<and>
   fst (api_member (example_member_body\<lparr>body_duration := JStr ''0s''\<rparr>) initial_state) =
     Inr (Json 200 [(''success'', JBool True)]) \<and>
   members (snd (api_member (example_member_body\<lparr>body_duration := JStr ''0s''\<rparr>)
     initial_state)) (JStr ''+15551230000'') =
     Some \<lparr>timeLimit = Ms 0, endMessage = JStr default_endMessage\<rparr>"
  unfolding api_member_def example_member_body_def initial_state_def
  by (simp add: parseDuration_0s)

text \<open>
  Claim C7. A registration request without \<^verbatim>\<open>userID\<close> (or with a falsy one) is
  answered with status 400 and leaves the whole state unchanged.
\<close>

theorem api_member_missing_userID:
  "\<not> truthy (body_userID body) \<Longrightarrow>
   (\<exists>js. fst (api_member body st) = Inr (Json 400 js)) \<and> snd (api_member body st) = st"
  by (simp add: api_member_falsy)

theorem api_member_missing_userID_witness:
  "\<not> truthy (body_userID (example_member_body\<lparr>body_userID := JUndefined\<rparr>)) \<and>
   fst (api_member (example_member_body\<lparr>body_userID := JUndefined\<rparr>) timed_call_state) =
     Inr (Json 400 [(''error'', JStr ''userID is required'')]) \<and>
   snd (api_member (example_member_body\<lparr>body_userID := JUndefined\<rparr>) timed_call_state) =
     timed_call_state"
  using api_member_missing_userID
    [of "example_member_body\<lparr>body_userID := JUndefined\<rparr>" timed_call_state]
  by (simp add: api_member_def)

text \<open>
  Claim C9. An accepted registration stores the supplied end message when it is
  truthy and the fixed sentence otherwise, so the stored end message is not the empty
  string; the handler also keeps every other stored end message non-empty.
\<close>

theorem api_member_endMessage:
  assumes "truthy (body_userID body)" "parseDuration (body_duration body) = Inr t"
  shows "(\<exists>m. members (snd (api_member body st)) (body_userID body) = Some m \<and>
            endMessage m \<noteq> JStr '''' \<and>
            (truthy (body_endMessage body) \<longrightarrow> endMessage m = body_endMessage body) \<and>
            (\<not> truthy (body_endMessage body) \<longrightarrow>
               endMessage m =
                 JStr ''You have reached your time limit. The call will now end. Goodbye.'')) \<and>
         (endMessages_nonempty st \<longrightarrow> endMessages_nonempty (snd (api_member body st)))"
proof -
  have "\<exists>m. members (snd (api_member body st)) (body_userID body) = Some m \<and>
            endMessage m \<noteq> JStr '''' \<and>
            (truthy (body_endMessage body) \<longrightarrow> endMessage m = body_endMessage body) \<and>
            (\<not> truthy (body_endMessage body) \<longrightarrow>
               endMessage m =
                 JStr ''You have reached your time limit. The call will now end. Goodbye.'')"
    unfolding api_member_members [OF assms]
    by (auto simp add: default_endMessage_def)
  then show ?thesis using api_member_preserves_endMessages by blast
qed

theorem api_member_endMessage_witness:
  "truthy (body_userID (example_member_body\<lparr>body_endMessage := JStr ''''\<rparr>)) \<and>
   parseDuration (body_duration (example_member_body\<lparr>body_endMessage := JStr ''''\<rparr>)) =
     Inr (Ms 1000) \<and>
   \<not> truthy (body_endMessage (example_member_body\<lparr>body_endMessage := JStr ''''\<rparr>)) \<and>
   endMessages_nonempty timed_call_state \<and>
   members (snd (api_member (example_member_body\<lparr>body_endMessage := JStr ''''\<rparr>)
     timed_call_state)) (JStr ''+15551230000'') =
     Some \<lparr>timeLimit = Ms 1000,
           endMessage =
             JStr ''You have reached your time limit. The call will now end. Goodbye.''\<rparr> \<and>
   endMessages_nonempty (snd (api_member (example_member_body\<lparr>body_endMessage := JStr ''''\<rparr>)
     timed_call_state))"
proof -
  have h: "truthy (body_userID (example_member_body\<lparr>body_endMessage := JStr ''''\<rparr>))"
    "parseDuration (body_duration (example_member_body\<lparr>body_endMessage := JStr ''''\<rparr>)) =
       Inr (Ms 1000)"
    by (simp_all add: example_member_body_def parseDuration_1s)
  have i: "endMessages_nonempty timed_call_state"
    by (simp add: endMessages_nonempty_def timed_call_state_eq default_endMessage_def)
  have m: "members (snd (api_member (example_member_body\<lparr>body_endMessage := JStr ''''\<rparr>)
     timed_call_state)) (JStr ''+15551230000'') =
     Some \<lparr>timeLimit = Ms 1000, endMessage = JStr default_endMessage\<rparr>"
    unfolding api_member_members [OF h] by (simp add: example_member_body_def)
  show ?thesis
    using h i api_member_endMessage [OF h, of timed_call_state]
    by (simp add: m default_endMessage_def)
qed

text \<open>
  Claim C10. The registration handler leaves \<open>activeCalls\<close> as it was, entry by
  entry, on each of its paths: the rejected request, the raised error, the
  registration without and with an active call.
\<close>

theorem api_member_keeps_activeCalls:
  "activeCalls (snd (api_member body st)) = activeCalls st"
  by (simp add: api_member_def setTimeout_def clearTimeout_def Let_def
      split: option.split sum.split)

section \<open>The duration parser\<close>

text \<open>
  Where the parser returns: for every falsy value (the absent one among them) and for
  every string, with 120000 for a falsy value and for a string that the pattern does
  not match.
\<close>

lemma parseDuration_returns:
  "(\<not> truthy v \<longrightarrow> parseDuration v = Inr (Ms 120000)) \<and>
   (\<exists>ms. parseDuration (JStr s) = Inr ms) \<and>
   (match_duration s = None \<longrightarrow> parseDuration (JStr s) = Inr (Ms 120000))"
proof -
  have "\<exists>ms. parseDuration (JStr s) = Inr ms"
    by (cases "JStr s" rule: parseDuration_cases) simp_all
  then show ?thesis
    using parseDuration_falsy [of v] parseDuration_no_match [of s]
    by blast
qed

text \<open>
  Claim C4 at the registration request with the duration 30, a number as a JSON body
  can carry it. The parser does not return the default: the call of \<^verbatim>\<open>match\<close> on
  the number raises a \<^verbatim>\<open>TypeError\<close>, and the handler ends with this error and stores
  nothing. \<open>obfuscatePhone\<close> tests \<^verbatim>\<open>typeof\<close> before it uses its argument as a string;
  \<open>parseDuration\<close> does not.
\<close>

theorem parseDuration_raises_on_number:
  "truthy (JNum (Finite 30)) \<and> \<not> is_string (JNum (Finite 30)) \<and>
   parseDuration (JNum (Finite 30)) = Inl TypeError \<and>
   api_member (example_member_body\<lparr>body_duration := JNum (Finite 30)\<rparr>) initial_state =
     (Inl TypeError, initial_state)"
proof -
  have p: "parseDuration (JNum (Finite 30)) = Inl TypeError"
    by (simp add: parseDuration_raises)
  then show ?thesis
    by (simp add: api_member_def example_member_body_def)
qed

text \<open>
  Claim C5, as the code has it. The pattern matches exactly the strings of one or
  more decimal digits followed by one \<^verbatim>\<open>s\<close> or \<^verbatim>\<open>m\<close>; every other string yields
  120000. A matching string yields the product of its digits' value with 1000 or with
  60 and 1000, computed in doubles: the product itself when it is below \<open>2 ^ 53\<close>,
  the rounded one in general. The examples of the specification follow.
\<close>

theorem parseDuration_grammar:
  "(match_duration s \<noteq> None \<longleftrightarrow>
      (\<exists>ds u. s = ds @ [u] \<and> ds \<noteq> [] \<and> list_all is_digit ds \<and>
         (u = CHR ''s'' \<or> u = CHR ''m''))) \<and>
   (match_duration s = None \<longrightarrow> parseDuration (JStr s) = Inr (Ms 120000)) \<and>
   (ds \<noteq> [] \<and> list_all is_digit ds \<longrightarrow>
      parseDuration (JStr (ds @ ''s'')) = Inr (js_times (toNumber (decimal ds)) 1000) \<and>
      parseDuration (JStr (ds @ ''m'')) =
        Inr (js_times (js_times (toNumber (decimal ds)) 60) 1000) \<and>
      (decimal ds * 1000 < 2 ^ 53 \<longrightarrow>
         parseDuration (JStr (ds @ ''s'')) = Inr (Ms (decimal ds * 1000))) \<and>
      (decimal ds * 60000 < 2 ^ 53 \<longrightarrow>
         parseDuration (JStr (ds @ ''m'')) = Inr (Ms (decimal ds * 60000)))) \<and>
   parseDuration (JStr ''30s'') = Inr (Ms 30000) \<and>
   parseDuration (JStr ''5m'') = Inr (Ms 300000) \<and>
   parseDuration (JStr '''') = Inr (Ms 120000) \<and>
   parseDuration (JStr ''10'') = Inr (Ms 120000) \<and>
   parseDuration (JStr ''5h'') = Inr (Ms 120000) \<and>
   parseDuration (JStr ''m5'') = Inr (Ms 120000)"
proof -
  have sec: "parseDuration (JStr (ds @ ''s'')) = Inr (Ms (decimal ds * 1000))"
    if "ds \<noteq> []" "list_all is_digit ds" "decimal ds * 1000 < 2 ^ 53"
  proof -
    have "decimal ds < 2 ^ 53" using that(3) by linarith
    then show ?thesis
      using that by (simp add: parseDuration_seconds toNumber_exact)
  qed
  have min: "parseDuration (JStr (ds @ ''m'')) = Inr (Ms (decimal ds * 60000))"
    if "ds \<noteq> []" "list_all is_digit ds" "decimal ds * 60000 < 2 ^ 53"
  proof -
    have "decimal ds < 2 ^ 53" "decimal ds * 60 < 2 ^ 53" "decimal ds * 60 * 1000 < 2 ^ 53"
      using that(3) by linarith+
    then show ?thesis
      using that(1,2) by (simp add: parseDuration_minutes toNumber_exact)
  qed
  show ?thesis
    using match_duration_Some_iff [of s] parseDuration_no_match [of s] sec min
      parseDuration_seconds [of ds] parseDuration_minutes [of ds]
      parseDuration_30s parseDuration_5m parseDuration_empty parseDuration_10
      parseDuration_5h parseDuration_m5
    by blast
qed

theorem parseDuration_grammar_witness:
  "match_duration ''5h'' = None \<and> parseDuration (JStr ''5h'') = Inr (Ms 120000) \<and>
   ''45'' \<noteq> [] \<and> list_all is_digit ''45'' \<and> decimal ''45'' * 60000 < (2::nat) ^ 53 \<and>
   parseDuration (JStr ''45s'') = Inr (Ms 45000) \<and>
   parseDuration (JStr ''45m'') = Inr (Ms 2700000)"
proof -
  have d: "decimal ''45'' = 45" "list_all is_digit ''45''" "match_duration ''5h'' = None"
    by (simp_all add: decimal_def digit_value_def is_digit_def match_duration_def)
  show ?thesis
    using parseDuration_grammar [of "''5h''" "''45''"]
    by (simp add: d is_digit_def toNumber_def)
qed

text \<open>
  The token \<^verbatim>\<open>"9007199254740993s"\<close> matches, and its result is not its digits'
  value times 1000: \<^verbatim>\<open>parseInt\<close> rounds \<open>2 ^ 53 + 1\<close> to \<open>2 ^ 53\<close>.
\<close>

theorem parseDuration_rounding_counterexample:
  "''9007199254740993'' \<noteq> [] \<and> list_all is_digit ''9007199254740993'' \<and>
   decimal ''9007199254740993'' = 9007199254740993 \<and>
   parseDuration (JStr (''9007199254740993'' @ ''s'')) = Inr (Ms 9007199254740992000) \<and>
   Ms 9007199254740992000 \<noteq> Ms (decimal ''9007199254740993'' * 1000)"
  using parseDuration_2_53_1 by (simp add: decimal_2_53_1 is_digit_def)

section \<open>Redaction of the caller identity\<close>

text \<open>
  Claim C6, as the code has it. \<open>obfuscatePhone\<close> returns \<^verbatim>\<open>"unknown"\<close> for every
  value that is not a string and for the empty string, \<^verbatim>\<open>"xxxxx"\<close> for a non-empty
  string of fewer than five characters, and for a string of five or more characters
  all but the last five followed by \<^verbatim>\<open>"xxxxx"\<close>: the result is as long as the input
  and ends in \<^verbatim>\<open>"xxxxx"\<close>.
\<close>

theorem obfuscatePhone_masks:
  "(\<not> is_string v \<longrightarrow> obfuscatePhone v = ''unknown'') \<and>
   obfuscatePhone (JStr '''') = ''unknown'' \<and>
   (s \<noteq> [] \<and> length s < 5 \<longrightarrow> obfuscatePhone (JStr s) = ''xxxxx'') \<and>
   (5 \<le> length t \<longrightarrow>
      obfuscatePhone (JStr t) = take (length t - 5) t @ ''xxxxx'' \<and>
      length (obfuscatePhone (JStr t)) = length t \<and>
      drop (length (obfuscatePhone (JStr t)) - 5) (obfuscatePhone (JStr t)) = ''xxxxx'')"
proof -
  have "\<not> is_string v \<longrightarrow> obfuscatePhone v = ''unknown''"
    by (cases v) simp_all
  moreover have "obfuscatePhone (JStr '''') = ''unknown''"
    by simp
  moreover have "s \<noteq> [] \<and> length s < 5 \<longrightarrow> obfuscatePhone (JStr s) = ''xxxxx''"
    by simp
  moreover have "5 \<le> length t \<longrightarrow>
      obfuscatePhone (JStr t) = take (length t - 5) t @ ''xxxxx'' \<and>
      length (obfuscatePhone (JStr t)) = length t \<and>
      drop (length (obfuscatePhone (JStr t)) - 5) (obfuscatePhone (JStr t)) = ''xxxxx''"
    by auto
  ultimately show ?thesis by blast
qed

theorem obfuscatePhone_masks_witness:
  "\<not> is_string JUndefined \<and> obfuscatePhone JUndefined = ''unknown'' \<and>
   ''1234'' \<noteq> [] \<and> length ''1234'' < 5 \<and> obfuscatePhone (JStr ''1234'') = ''xxxxx'' \<and>
   5 \<le> length ''+15551230000'' \<and>
   obfuscatePhone (JStr ''+15551230000'') = ''+155512xxxxx''"
  using obfuscatePhone_masks [of JUndefined "''1234''" "''+15551230000''"]
  by simp

text \<open>The empty string is shorter than five characters and is not masked as \<^verbatim>\<open>"xxxxx"\<close>.\<close>

theorem obfuscatePhone_empty_counterexample:
  "length ('''' :: string) < 5 \<and> obfuscatePhone (JStr '''') \<noteq> ''xxxxx''"
  by simp

end
